theory Spec2Isabelle
  imports Main
begin

section \<open>Data model\<close>

text \<open>
  A JavaScript string is a sequence of UTF-16 code units and \<open>.length\<close> counts them.
  A \<open>string\<close> below is read as that sequence, one list element per code unit, so
  \<open>length\<close> is \<open>.length\<close>. Only ASCII literals occur in the code modelled here.

  Calls of the logger change nothing that is modelled and are left out.
\<close>

text \<open>
  A thrown value. \<open>getErrorMessage\<close> (common utilities of the backlog-modify
  routes) returns \<open>error.message\<close> for an \<open>Error\<close> and \<open>String(error)\<close> for anything
  else; a value that is no \<open>Error\<close> is carried as that rendering.
\<close>

datatype thrown = Error string | NonError string

fun getErrorMessage :: "thrown \<Rightarrow> string" where
  "getErrorMessage (Error m) = m"
| "getErrorMessage (NonError s) = s"

text \<open>
  \<open>Feature\<close> (libs/types/src/feature.ts), with the fields that identify a feature and
  the \<open>status\<close> the generation filters on; an optional field is an \<open>option\<close>. The
  field \<open>id\<close> is \<open>feature_id\<close> here.
\<close>

record Feature =
  feature_id :: string
  title :: "string option"
  category :: string
  description :: string
  status :: "string option"

text \<open>
  Modelled from the spec: the declarations of \<open>BacklogChange\<close>, \<open>DependencyUpdate\<close> and
  \<open>BacklogPlanResult\<close> (package \<open>@automaker/types\<close>) are not among the sources. The
  fields are the ones the code reads and writes: \<open>c.type\<close>, \<open>change.featureId\<close>,
  \<open>change.feature\<close> (apply.ts), \<open>changes\<close>, \<open>summary\<close>, \<open>dependencyUpdates\<close>
  (\<open>parseModifyResponse\<close>). The value comes out of parsed JSON and is taken at its
  declared type: \<open>changes\<close> is a list of objects, and \<open>type\<close> is any string.
  \<open>otherKeys\<close> holds whatever further keys the parsed object has: the spread
  \<open>...parsed\<close> keeps them.
\<close>

type_synonym PartialFeature = "(string \<times> string) list"

record BacklogChange =
  type :: string
  featureId :: "string option"
  feature :: "PartialFeature option"
  reason :: string

type_synonym DependencyUpdate = "string \<times> string list \<times> string list"

record BacklogPlanResult =
  changes :: "BacklogChange list"
  summary :: string
  dependencyUpdates :: "DependencyUpdate list"
  otherKeys :: "(string \<times> string) list"

text \<open>
  Modelled from the spec: \<open>ProviderMessage\<close> (providers/types.ts) is not among the
  sources. The spec gives \<open>assistant { content: ContentBlock list }\<close> with blocks
  \<open>{type: "text", text}\<close> and \<open>{type: "tool_use", name, input}\<close>,
  \<open>result { subtype, result?, error? }\<close>, and other messages passed through. The code
  reads \<open>msg.message?.content\<close>, so the content may be absent.
\<close>

datatype ContentBlock = TextBlock string | ToolUse string string | OtherBlock string

datatype ProviderMessage =
    Assistant "ContentBlock list option"
  | Result string "string option" "string option"
  | OtherMessage string

text \<open>
  Modelled from the spec: \<open>ExecuteOptions\<close> (providers/types.ts) is not among the
  sources; the fields are those of the object literal passed to \<open>executeQuery\<close>. The
  abort controller is a reference into the table of controllers below.
\<close>

record ExecuteOptions =
  prompt :: string
  model :: string
  cwd :: string
  systemPrompt :: "string option"
  maxTurns :: nat
  allowedTools :: "string list"
  abortController :: nat
  settingSources :: "string list option"
  readOnly :: bool
  thinkingLevel :: "string option"

text \<open>The payloads this feature emits on the event bus.\<close>

datatype payload =
    backlog_modify_progress string
  | backlog_modify_complete BacklogPlanResult
  | backlog_modify_error string

section \<open>Shared state\<close>

text \<open>
  \<open>isRunning\<close> and \<open>currentAbortController\<close> are the two module variables of the
  common utilities. \<open>controllers\<close> is the heap of \<open>AbortController\<close> objects: entry \<open>i\<close> is
  \<open>signal.aborted\<close> of controller \<open>i\<close>. \<open>bus\<close> is the sequence of \<open>events.emit\<close>
  calls so far (event name, payload), and \<open>queries\<close> the sequence of option objects
  handed to \<open>provider.executeQuery\<close>.
\<close>

record world =
  isRunning :: bool
  currentAbortController :: "nat option"
  controllers :: "bool list"
  bus :: "(string \<times> payload) list"
  queries :: "ExecuteOptions list"

definition getBacklogModifyStatus :: "world \<Rightarrow> bool" where
  "getBacklogModifyStatus w = isRunning w"

text \<open>
  \<open>setRunningState(running, abortController?)\<close>: the second argument is \<open>None\<close> when
  omitted (\<open>undefined\<close>), \<open>Some None\<close> for \<open>null\<close>, \<open>Some (Some c)\<close> for a controller.
\<close>

definition setRunningState :: "bool \<Rightarrow> nat option option \<Rightarrow> world \<Rightarrow> world" where
  "setRunningState running controller w =
     (case controller of
        None \<Rightarrow> w\<lparr>isRunning := running\<rparr>
      | Some c \<Rightarrow> w\<lparr>isRunning := running, currentAbortController := c\<rparr>)"

definition getAbortController :: "world \<Rightarrow> nat option" where
  "getAbortController w = currentAbortController w"

text \<open>\<open>new AbortController()\<close>: a fresh object, not aborted.\<close>

definition newAbortController :: "world \<Rightarrow> nat \<times> world" where
  "newAbortController w =
     (length (controllers w), w\<lparr>controllers := controllers w @ [False]\<rparr>)"

text \<open>\<open>abortController.abort()\<close> and \<open>abortController.signal.aborted\<close>.\<close>

definition abort :: "nat \<Rightarrow> world \<Rightarrow> world" where
  "abort c w = w\<lparr>controllers := (controllers w)[c := True]\<rparr>"

definition aborted :: "nat \<Rightarrow> world \<Rightarrow> bool" where
  "aborted c w = (c < length (controllers w) \<and> controllers w ! c)"

definition emit :: "string \<Rightarrow> payload \<Rightarrow> world \<Rightarrow> world" where
  "emit name p w = w\<lparr>bus := bus w @ [(name, p)]\<rparr>"

section \<open>The handlers\<close>

record response =
  statusCode :: nat
  success :: bool
  error :: "string option"
  message :: "string option"

text \<open>
  \<open>createStopHandler\<close>. The handler is a total function of the state: no step of it
  throws.
\<close>

definition createStopHandler :: "world \<Rightarrow> response \<times> world" where
  "createStopHandler w =
     (case getAbortController w of
        Some controller \<Rightarrow>
          (\<lparr>statusCode = 200, success = True, error = None,
            message = Some ''Generation stopped''\<rparr>,
           setRunningState False (Some None) (abort controller w))
      | None \<Rightarrow>
          (\<lparr>statusCode = 200, success = True, error = None,
            message = Some ''No generation running''\<rparr>, w))"

text \<open>
  The body of a generate request and the call of \<open>generateBacklogModify\<close> that the
  handler starts in the background.
\<close>

record request =
  body_projectPath :: string
  body_prompt :: string
  body_model :: "string option"

record launch =
  launch_projectPath :: string
  launch_prompt :: string
  launch_abortController :: nat
  launch_model :: "string option"

text \<open>
  \<open>createGenerateHandler\<close>. It returns the response, the background call it started
  (if any) and the state. A field that is missing from the body is falsy like the
  empty string and takes the same branch. The started call runs up to its first
  \<open>await\<close> inside the handler and touches nothing modelled there; its run is
  \<open>createGenerateHandler_background\<close> below. Nothing in the \<open>try\<close> block throws for a
  body that is an object, so the status-500 branch is not taken.
\<close>

definition createGenerateHandler :: "request \<Rightarrow> world \<Rightarrow> response \<times> launch option \<times> world" where
  "createGenerateHandler body w =
     (if body_projectPath body = [] then
        (\<lparr>statusCode = 400, success = False, error = Some ''projectPath required'',
          message = None\<rparr>, None, w)
      else if body_prompt body = [] then
        (\<lparr>statusCode = 400, success = False, error = Some ''prompt required'',
          message = None\<rparr>, None, w)
      else if getBacklogModifyStatus w then
        (\<lparr>statusCode = 200, success = False,
          error = Some ''Backlog modify generation is already running'',
          message = None\<rparr>, None, w)
      else
        (let w1 = setRunningState True None w;
             (controller, w2) = newAbortController w1;
             w3 = setRunningState True (Some (Some controller)) w2
         in (\<lparr>statusCode = 200, success = True, error = None, message = None\<rparr>,
             Some \<lparr>launch_projectPath = body_projectPath body,
                   launch_prompt = body_prompt body,
                   launch_abortController = controller,
                   launch_model = body_model body\<rparr>,
             w3)))"

section \<open>Generation\<close>

text \<open>
  What the background call meets at the successive \<open>await\<close>s of its
  \<open>for await (const msg of stream)\<close>: the next message, an exception out of the
  stream, or a stop request that the server handles while the call is suspended (the
  process is single-threaded, so a handler runs only there). The end of the list is the
  end of the stream.

  A stop request handled earlier, while the call awaits one of its collaborators, acts
  like one at the head of the list: the code before the loop neither reads nor writes
  what the stop handler changes. One background call is followed at a time; a further
  generate request that is accepted after a stop starts a call of its own.
\<close>

datatype await_event = Delivers ProviderMessage | Throws thrown | StopRequest

text \<open>
  The collaborators of \<open>generateBacklogModify\<close> that are not among the sources, and
  the built-in \<open>String.prototype.replace\<close>, taken as parameters; \<open>Inl\<close> is a thrown
  value.
  \<^item> \<open>featureLoader_getAll\<close>: \<open>featureLoader.getAll(projectPath)\<close>;
  \<^item> \<open>getPromptCustomization\<close>: \<open>prompts.backlogModify\<close> as the pair of
    \<open>systemPrompt\<close> and \<open>userPromptTemplate\<close>;
  \<^item> \<open>getGlobalSettings\<close>: \<open>settings?.phaseModels?.backlogPlanningModel\<close> after
    \<open>await settingsService?.getGlobalSettings()\<close>, \<open>None\<close> when it is undefined (also
    when there is no settings service);
  \<^item> \<open>getProviderForModel\<close>: the provider, as its \<open>executeQuery\<close>;
  \<^item> \<open>resolvePhaseModel\<close>: the pair of \<open>resolved.model\<close> and
    \<open>resolved.thinkingLevel\<close>;
  \<^item> \<open>getAutoLoadClaudeMdSetting\<close>: by project path;
  \<^item> \<open>extractJsonWithArray\<close>: \<open>None\<close> is \<open>null\<close>.
  \<open>formatFeaturesForPrompt\<close> renders numbers and trims white space; its text only
  feeds the prompt, which no property below reads, so it is a parameter too.
\<close>

type_synonym PhaseModelEntry = "string \<times> string option"

record collaborators =
  featureLoader_getAll :: "string \<Rightarrow> thrown + Feature list"
  getPromptCustomization :: "thrown + string \<times> string"
  formatFeaturesForPrompt :: "Feature list \<Rightarrow> string"
  String_replace :: "string \<Rightarrow> string \<Rightarrow> string \<Rightarrow> string"
  getGlobalSettings :: "thrown + PhaseModelEntry option"
  DEFAULT_PHASE_MODELS_backlogPlanningModel :: PhaseModelEntry
  resolvePhaseModel :: "PhaseModelEntry \<Rightarrow> thrown + string \<times> string option"
  getProviderForModel :: "string \<Rightarrow> thrown + (ExecuteOptions \<Rightarrow> await_event list)"
  getAutoLoadClaudeMdSetting :: "string \<Rightarrow> thrown + bool"
  isCursorModel :: "string \<Rightarrow> bool"
  extractJsonWithArray :: "string \<Rightarrow> BacklogPlanResult option"

text \<open>\<open>parseModifyResponse\<close>.\<close>

definition parseModifyResponse :: "collaborators \<Rightarrow> string \<Rightarrow> BacklogPlanResult" where
  "parseModifyResponse env response =
     (case extractJsonWithArray env response of
        Some parsed \<Rightarrow>
          (let updateChanges = filter (\<lambda>c. type c = ''update'') (changes parsed)
           in parsed\<lparr>changes := updateChanges, dependencyUpdates := []\<rparr>)
      | None \<Rightarrow>
          \<lparr>changes = [], summary = ''Failed to parse AI response'',
           dependencyUpdates = [], otherKeys = []\<rparr>)"

text \<open>The template literal \<open>${n}\<close> for an array length.\<close>

fun decimal :: "nat \<Rightarrow> string" where
  "decimal n =
     (if n < 10 then [''0123456789'' ! n]
      else decimal (n div 10) @ [''0123456789'' ! (n mod 10)])"

declare decimal.simps [simp del]

text \<open>The model to use (\<open>effectiveModel\<close>, \<open>thinkingLevel\<close>); an empty string is falsy.\<close>

definition effectiveModel :: "collaborators \<Rightarrow> string option \<Rightarrow> thrown + string \<times> string option" where
  "effectiveModel env override =
     (case override of
        Some m \<Rightarrow>
          (if m \<noteq> [] then Inr (m, None)
           else (case getGlobalSettings env of
                   Inl e \<Rightarrow> Inl e
                 | Inr None \<Rightarrow> resolvePhaseModel env (DEFAULT_PHASE_MODELS_backlogPlanningModel env)
                 | Inr (Some phaseModelEntry) \<Rightarrow> resolvePhaseModel env phaseModelEntry))
      | None \<Rightarrow>
          (case getGlobalSettings env of
             Inl e \<Rightarrow> Inl e
           | Inr None \<Rightarrow> resolvePhaseModel env (DEFAULT_PHASE_MODELS_backlogPlanningModel env)
           | Inr (Some phaseModelEntry) \<Rightarrow> resolvePhaseModel env phaseModelEntry))"

text \<open>The prompt for a Cursor model: system prompt, fixed instructions, user prompt.\<close>

definition cursorPrompt :: "string \<Rightarrow> string \<Rightarrow> string" where
  "cursorPrompt system userPrompt =
     system @ [CHR 0x0A, CHR 0x0A] @
     ''CRITICAL INSTRUCTIONS:'' @ [CHR 0x0A] @
     ''1. DO NOT write any files. Return the JSON in your response only.'' @ [CHR 0x0A] @
     ''2. DO NOT use Write, Edit, or any file modification tools.'' @ [CHR 0x0A] @
     ''3. Respond with ONLY a JSON object - no explanations, no markdown, just raw JSON.'' @ [CHR 0x0A] @
     ''4. Your entire response should be valid JSON starting with { and ending with }.'' @ [CHR 0x0A] @
     ''5. No text before or after the JSON object.'' @ [CHR 0x0A] @
     ''6. ONLY include '' @ [CHR 0x22] @ ''update'' @ [CHR 0x22] @ '' type changes - no '' @
       [CHR 0x22] @ ''add'' @ [CHR 0x22] @ '' or '' @ [CHR 0x22] @ ''delete'' @ [CHR 0x22] @ ''.'' @
     [CHR 0x0A, CHR 0x0A] @ userPrompt"

text \<open>
  \<open>generateBacklogModify\<close>, from the start of its \<open>try\<close> block to the call of
  \<open>provider.executeQuery\<close>: the result is the stream, or the value thrown on the way.
\<close>

definition generateBacklogModify_query ::
  "collaborators \<Rightarrow> string \<Rightarrow> string \<Rightarrow> nat \<Rightarrow> string option \<Rightarrow> world
     \<Rightarrow> (thrown + await_event list) \<times> world" where
  "generateBacklogModify_query env projectPath userRequest controller override w =
     (case featureLoader_getAll env projectPath of
        Inl e \<Rightarrow> (Inl e, w)
      | Inr features \<Rightarrow>
          (let eligibleFeatures =
                 filter (\<lambda>f. status f = Some ''backlog'' \<or> status f = Some ''in_progress'') features;
               w1 = emit ''backlog-modify:event''
                      (backlog_modify_progress
                         (''Loaded '' @ decimal (length eligibleFeatures) @
                          '' features (backlog/in_progress) from '' @
                          decimal (length features) @ '' total'')) w
           in case getPromptCustomization env of
                Inl e \<Rightarrow> (Inl e, w1)
              | Inr (system, userPromptTemplate) \<Rightarrow>
                  (let currentFeatures = formatFeaturesForPrompt env features;
                       userPrompt =
                         String_replace env
                           (String_replace env userPromptTemplate
                              ''{{currentFeatures}}'' currentFeatures)
                           ''{{userRequest}}'' userRequest;
                       w2 = emit ''backlog-modify:event''
                              (backlog_modify_progress ''Generating modifications with AI...'') w1
                   in case effectiveModel env override of
                        Inl e \<Rightarrow> (Inl e, w2)
                      | Inr (effective, thinking) \<Rightarrow>
                          (case getProviderForModel env effective of
                             Inl e \<Rightarrow> (Inl e, w2)
                           | Inr executeQuery \<Rightarrow>
                               (case getAutoLoadClaudeMdSetting env projectPath of
                                  Inl e \<Rightarrow> (Inl e, w2)
                                | Inr autoLoadClaudeMd \<Rightarrow>
                                    (let options =
                                       \<lparr>prompt = (if isCursorModel env effective
                                                   then cursorPrompt system userPrompt
                                                   else userPrompt),
                                        model = effective,
                                        cwd = projectPath,
                                        systemPrompt = (if isCursorModel env effective
                                                         then None else Some system),
                                        maxTurns = 1,
                                        allowedTools = [],
                                        abortController = controller,
                                        settingSources = (if autoLoadClaudeMd
                                                           then Some [''user'', ''project'']
                                                           else None),
                                        readOnly = True,
                                        thinkingLevel = thinking\<rparr>
                                     in (Inr (executeQuery options),
                                         w2\<lparr>queries := queries w2 @ [options]\<rparr>)))))))"

text \<open>The body of the \<open>for await\<close> loop after the abort check: one message.\<close>

fun appendText :: "string \<Rightarrow> ContentBlock list \<Rightarrow> string" where
  "appendText responseText [] = responseText"
| "appendText responseText (TextBlock t # blocks) = appendText (responseText @ t) blocks"
| "appendText responseText (_ # blocks) = appendText responseText blocks"

fun onMessage :: "ProviderMessage \<Rightarrow> string \<Rightarrow> string" where
  "onMessage (Assistant None) responseText = responseText"
| "onMessage (Assistant (Some content)) responseText = appendText responseText content"
| "onMessage (Result subtype None err) responseText = responseText"
| "onMessage (Result subtype (Some r) err) responseText =
     (if subtype = ''success'' \<and> r \<noteq> [] then
        (if length r > length responseText then r else responseText)
      else responseText)"
| "onMessage (OtherMessage t) responseText = responseText"

text \<open>The \<open>for await\<close> loop: the accumulated text, or the value thrown.\<close>

fun generateBacklogModify_stream ::
  "nat \<Rightarrow> await_event list \<Rightarrow> string \<Rightarrow> world \<Rightarrow> (thrown + string) \<times> world" where
  "generateBacklogModify_stream controller [] responseText w = (Inr responseText, w)"
| "generateBacklogModify_stream controller (StopRequest # rest) responseText w =
     generateBacklogModify_stream controller rest responseText (snd (createStopHandler w))"
| "generateBacklogModify_stream controller (Throws e # rest) responseText w = (Inl e, w)"
| "generateBacklogModify_stream controller (Delivers msg # rest) responseText w =
     (if aborted controller w then (Inl (Error ''Generation aborted''), w)
      else generateBacklogModify_stream controller rest (onMessage msg responseText) w)"

text \<open>The \<open>try\<close> block of \<open>generateBacklogModify\<close>.\<close>

definition generateBacklogModify_try ::
  "collaborators \<Rightarrow> string \<Rightarrow> string \<Rightarrow> nat \<Rightarrow> string option \<Rightarrow> world
     \<Rightarrow> (thrown + BacklogPlanResult) \<times> world" where
  "generateBacklogModify_try env projectPath userRequest controller override w =
     (case generateBacklogModify_query env projectPath userRequest controller override w of
        (Inl e, w1) \<Rightarrow> (Inl e, w1)
      | (Inr stream, w1) \<Rightarrow>
          (case generateBacklogModify_stream controller stream [] w1 of
             (Inl e, w2) \<Rightarrow> (Inl e, w2)
           | (Inr responseText, w2) \<Rightarrow>
               (let result = parseModifyResponse env responseText
                in (Inr result,
                    emit ''backlog-modify:event'' (backlog_modify_complete result) w2))))"

text \<open>
  \<open>generateBacklogModify\<close>: the \<open>try\<close> block, its \<open>catch\<close> (emit the error event and
  throw again) and its \<open>finally\<close>.
\<close>

definition generateBacklogModify ::
  "collaborators \<Rightarrow> string \<Rightarrow> string \<Rightarrow> nat \<Rightarrow> string option \<Rightarrow> world
     \<Rightarrow> (thrown + BacklogPlanResult) \<times> world" where
  "generateBacklogModify env projectPath userRequest controller override w =
     (case generateBacklogModify_try env projectPath userRequest controller override w of
        (Inl e, w1) \<Rightarrow>
          (Inl e,
           setRunningState False (Some None)
             (emit ''backlog-modify:event'' (backlog_modify_error (getErrorMessage e)) w1))
      | (Inr result, w1) \<Rightarrow> (Inr result, setRunningState False (Some None) w1))"

text \<open>
  The background call of \<open>createGenerateHandler\<close>:
  \<open>generateBacklogModify(...).catch(...).finally(...)\<close>. The two callbacks run as
  microtasks right after the promise settles, before any other request is handled.
\<close>

definition createGenerateHandler_background :: "collaborators \<Rightarrow> launch \<Rightarrow> world \<Rightarrow> world" where
  "createGenerateHandler_background env l w =
     (case generateBacklogModify env (launch_projectPath l) (launch_prompt l)
             (launch_abortController l) (launch_model l) w of
        (Inl e, w1) \<Rightarrow>
          setRunningState False (Some None)
            (emit ''backlog-modify:event'' (backlog_modify_error (getErrorMessage e)) w1)
      | (Inr result, w1) \<Rightarrow> setRunningState False (Some None) w1)"

section \<open>Notions used in the statements\<close>

text \<open>The state when the module is loaded (\<open>isRunning = false\<close>, no controller).\<close>

definition initial :: world where
  "initial = \<lparr>isRunning = False, currentAbortController = None, controllers = [],
              bus = [], queries = []\<rparr>"

text \<open>The payloads emitted between a state and a later one, in order.\<close>

definition emitted :: "world \<Rightarrow> world \<Rightarrow> payload list" where
  "emitted w w' = map snd (drop (length (bus w)) (bus w'))"

text \<open>A terminal event is a completion or an error event.\<close>

fun terminal :: "payload \<Rightarrow> bool" where
  "terminal (backlog_modify_progress c) = False"
| "terminal (backlog_modify_complete r) = True"
| "terminal (backlog_modify_error e) = True"

text \<open>The texts of the text blocks of an assistant message, in order.\<close>

fun texts :: "ContentBlock list \<Rightarrow> string list" where
  "texts [] = []"
| "texts (TextBlock t # blocks) = t # texts blocks"
| "texts (_ # blocks) = texts blocks"

text \<open>
  Collaborators for the worked examples: no features, default prompts, the default
  model, and a provider whose stream is given; the answers of the Cursor test and of
  the JSON extractor are given too.
\<close>

definition exampleCollaborators ::
  "bool \<Rightarrow> BacklogPlanResult option \<Rightarrow> await_event list \<Rightarrow> collaborators" where
  "exampleCollaborators cursor extracted stream =
     \<lparr>featureLoader_getAll = (\<lambda>p. Inr []),
      getPromptCustomization =
        Inr (''You edit a backlog.'', ''{{currentFeatures}} {{userRequest}}''),
      formatFeaturesForPrompt = (\<lambda>fs. ''No features in backlog or in progress.''),
      String_replace = (\<lambda>s pattern replacement. s),
      getGlobalSettings = Inr None,
      DEFAULT_PHASE_MODELS_backlogPlanningModel = (''sonnet'', None),
      resolvePhaseModel = (\<lambda>entry. Inr entry),
      getProviderForModel = (\<lambda>m. Inr (\<lambda>options. stream)),
      getAutoLoadClaudeMdSetting = (\<lambda>p. Inr False),
      isCursorModel = (\<lambda>m. cursor),
      extractJsonWithArray = (\<lambda>response. extracted)\<rparr>"

text \<open>
  A request, the background call that the handler starts for it in the initial state,
  and the state the handler leaves.
\<close>

definition exampleRequest :: request where
  "exampleRequest =
     \<lparr>body_projectPath = ''/p'', body_prompt = ''tidy'', body_model = None\<rparr>"

definition exampleLaunch :: launch where
  "exampleLaunch =
     \<lparr>launch_projectPath = ''/p'', launch_prompt = ''tidy'', launch_abortController = 0,
      launch_model = None\<rparr>"

definition running :: world where
  "running = \<lparr>isRunning = True, currentAbortController = Some 0, controllers = [False],
              bus = [], queries = []\<rparr>"

text \<open>The artifact returned when the response cannot be parsed.\<close>

definition failedToParse :: BacklogPlanResult where
  "failedToParse =
     \<lparr>changes = [], summary = ''Failed to parse AI response'', dependencyUpdates = [],
      otherKeys = []\<rparr>"

text \<open>A parsed plan with one change of each type.\<close>

definition examplePlan :: BacklogPlanResult where
  "examplePlan =
     \<lparr>changes =
        [\<lparr>type = ''add'', featureId = None, feature = Some [], reason = ''new''\<rparr>,
         \<lparr>type = ''update'', featureId = Some ''f1'', feature = Some [], reason = ''edit''\<rparr>,
         \<lparr>type = ''delete'', featureId = Some ''f2'', feature = None, reason = ''drop''\<rparr>],
      summary = ''three changes'',
      dependencyUpdates = [(''f1'', [], [''f2''])],
      otherKeys = []\<rparr>"

text \<open>A generate request followed, when it is accepted, by the whole background call.\<close>

definition startAndRun :: "collaborators \<Rightarrow> request \<Rightarrow> world \<Rightarrow> response \<times> world" where
  "startAndRun env body w =
     (case createGenerateHandler body w of
        (res, Some l, w1) \<Rightarrow> (res, createGenerateHandler_background env l w1)
      | (res, None, w1) \<Rightarrow> (res, w1))"

section \<open>Auxiliary facts\<close>

lemma stop_bus:
  "bus (snd (createStopHandler w)) = bus w \<and>
   queries (snd (createStopHandler w)) = queries w"
  by (simp add: createStopHandler_def setRunningState_def abort_def getAbortController_def
      split: option.splits)

lemma stream_bus:
  "bus (snd (generateBacklogModify_stream c evs t w)) = bus w \<and>
   queries (snd (generateBacklogModify_stream c evs t w)) = queries w"
  by (induction c evs t w rule: generateBacklogModify_stream.induct) (simp_all add: stop_bus)

lemma appendText_texts: "appendText t blocks = t @ concat (texts blocks)"
  by (induction t blocks rule: appendText.induct) simp_all

lemma stream_delivers:
  "\<not> aborted c w \<Longrightarrow>
   generateBacklogModify_stream c (map Delivers msgs) t w = (Inr (fold onMessage msgs t), w)"
  by (induction msgs arbitrary: t) simp_all

lemma fold_assistant:
  "fold onMessage (map (\<lambda>blocks. Assistant (Some blocks)) contents) t =
   t @ concat (concat (map texts contents))"
  by (induction contents arbitrary: t) (simp_all add: appendText_texts)

lemma query_bus:
  "generateBacklogModify_query env p u c m w = (r, w1) \<Longrightarrow>
   \<exists>ps. bus w1 = bus w @ ps \<and> (\<forall>x\<in>set ps. \<not> terminal (snd x))"
  by (auto simp: generateBacklogModify_query_def emit_def Let_def split: sum.splits prod.splits)


lemma try_bus:
  "generateBacklogModify_try env p u c m w = (r, w1) \<Longrightarrow>
   \<exists>ps. (\<forall>x\<in>set ps. \<not> terminal (snd x)) \<and>
     bus w1 = bus w @ ps @
       (case r of Inl e \<Rightarrow> [] | Inr res \<Rightarrow> [(''backlog-modify:event'', backlog_modify_complete res)])"
proof -
  assume a: "generateBacklogModify_try env p u c m w = (r, w1)"
  obtain q wq where q: "generateBacklogModify_query env p u c m w = (q, wq)"
    by (cases "generateBacklogModify_query env p u c m w")
  from query_bus [OF q] obtain ps where
    ps: "bus wq = bus w @ ps" "\<forall>x\<in>set ps. \<not> terminal (snd x)" by blast
  show ?thesis
  proof (cases q)
    case (Inl e)
    with a q have "r = Inl e" "w1 = wq" by (simp_all add: generateBacklogModify_try_def)
    with ps show ?thesis by auto
  next
    case (Inr stream)
    obtain s ws where s: "generateBacklogModify_stream c stream [] wq = (s, ws)"
      by (cases "generateBacklogModify_stream c stream [] wq")
    have bs: "bus ws = bus wq" using stream_bus [of c stream "[]" wq] s by simp
    show ?thesis
    proof (cases s)
      case (Inl e)
      with a q Inr s have "r = Inl e" "w1 = ws" by (simp_all add: generateBacklogModify_try_def)
      with ps bs show ?thesis by auto
    next
      case (Inr rt)
      with a q \<open>q = Inr stream\<close> s have
        "r = Inr (parseModifyResponse env rt)"
        "w1 = emit ''backlog-modify:event'' (backlog_modify_complete (parseModifyResponse env rt)) ws"
        by (simp_all add: generateBacklogModify_try_def Let_def)
      with ps bs show ?thesis by (auto simp: emit_def)
    qed
  qed
qed

lemma try_result:
  "generateBacklogModify_try env p u c m w = (Inr res, w1) \<Longrightarrow>
   \<exists>text. res = parseModifyResponse env text"
  by (auto simp: generateBacklogModify_try_def Let_def split: sum.splits prod.splits)


lemma background_bus:
  "generateBacklogModify_try env (launch_projectPath l) (launch_prompt l)
     (launch_abortController l) (launch_model l) w = (r, w1) \<Longrightarrow>
   \<exists>ps. (\<forall>x\<in>set ps. \<not> terminal (snd x)) \<and>
     bus (createGenerateHandler_background env l w) = bus w @ ps @
       (case r of
          Inl e \<Rightarrow> [(''backlog-modify:event'', backlog_modify_error (getErrorMessage e)),
                    (''backlog-modify:event'', backlog_modify_error (getErrorMessage e))]
        | Inr res \<Rightarrow> [(''backlog-modify:event'', backlog_modify_complete res)])"
proof -
  assume a: "generateBacklogModify_try env (launch_projectPath l) (launch_prompt l)
     (launch_abortController l) (launch_model l) w = (r, w1)"
  from try_bus [OF a] obtain ps where
    ps: "\<forall>x\<in>set ps. \<not> terminal (snd x)"
      "bus w1 = bus w @ ps @
        (case r of Inl e \<Rightarrow> [] | Inr res \<Rightarrow> [(''backlog-modify:event'', backlog_modify_complete res)])"
    by blast
  show ?thesis
  proof (cases r)
    case (Inl e)
    with a ps have
      "bus (createGenerateHandler_background env l w) = bus w @ ps @
         [(''backlog-modify:event'', backlog_modify_error (getErrorMessage e)),
          (''backlog-modify:event'', backlog_modify_error (getErrorMessage e))]"
      by (simp add: createGenerateHandler_background_def generateBacklogModify_def
          setRunningState_def emit_def)
    with ps(1) Inl show ?thesis by auto
  next
    case (Inr res)
    with a ps have
      "bus (createGenerateHandler_background env l w) = bus w @ ps @
         [(''backlog-modify:event'', backlog_modify_complete res)]"
      by (simp add: createGenerateHandler_background_def generateBacklogModify_def
          setRunningState_def emit_def)
    with ps(1) Inr show ?thesis by auto
  qed
qed

lemma background_terminal:
  "generateBacklogModify_try env (launch_projectPath l) (launch_prompt l)
     (launch_abortController l) (launch_model l) w = (r, w1) \<Longrightarrow>
   filter terminal (emitted w (createGenerateHandler_background env l w)) =
     (case r of
        Inl e \<Rightarrow> [backlog_modify_error (getErrorMessage e), backlog_modify_error (getErrorMessage e)]
      | Inr res \<Rightarrow> [backlog_modify_complete res])"
proof -
  assume a: "generateBacklogModify_try env (launch_projectPath l) (launch_prompt l)
     (launch_abortController l) (launch_model l) w = (r, w1)"
  from background_bus [OF a] obtain ps where
    ps: "\<forall>x\<in>set ps. \<not> terminal (snd x)"
      "bus (createGenerateHandler_background env l w) = bus w @ ps @
       (case r of
          Inl e \<Rightarrow> [(''backlog-modify:event'', backlog_modify_error (getErrorMessage e)),
                    (''backlog-modify:event'', backlog_modify_error (getErrorMessage e))]
        | Inr res \<Rightarrow> [(''backlog-modify:event'', backlog_modify_complete res)])"
    by blast
  from ps(1) have "filter terminal (map snd ps) = []"
    by (induction ps) auto
  with ps(2) show ?thesis
    by (cases r) (simp_all add: emitted_def)
qed


lemmas run_defs = startAndRun_def createGenerateHandler_def getBacklogModifyStatus_def
  setRunningState_def newAbortController_def createGenerateHandler_background_def
  generateBacklogModify_def generateBacklogModify_try_def generateBacklogModify_query_def
  effectiveModel_def parseModifyResponse_def emit_def emitted_def aborted_def abort_def
  createStopHandler_def getAbortController_def
  exampleCollaborators_def exampleRequest_def exampleLaunch_def running_def initial_def
  failedToParse_def examplePlan_def Let_def decimal.simps

text \<open>
  The handler accepts \<open>exampleRequest\<close> in the initial state, starts \<open>exampleLaunch\<close>
  and leaves the state \<open>running\<close>.
\<close>

lemma example_accept:
  "createGenerateHandler exampleRequest initial =
     (\<lparr>statusCode = 200, success = True, error = None, message = None\<rparr>,
      Some exampleLaunch, running)"
  by (simp add: run_defs)

section \<open>Admission\<close>

text \<open>
  Claim C1 as stated fails: it says that a start issued while \<open>isRunning\<close> is false is
  accepted and sets \<open>isRunning\<close>, and that a start issued while it is true is answered
  with the already-running error. The handler first checks the body: a request with an
  empty \<open>projectPath\<close> is refused with \<open>projectPath required\<close> in both states, and in
  the initial state it leaves \<open>isRunning\<close> false.
\<close>

theorem generate_requires_fields_counterexample:
  "\<not> isRunning initial \<and>
   \<not> success (fst (createGenerateHandler (exampleRequest\<lparr>body_projectPath := []\<rparr>) initial)) \<and>
   \<not> isRunning (snd (snd (createGenerateHandler
        (exampleRequest\<lparr>body_projectPath := []\<rparr>) initial))) \<and>
   isRunning running \<and>
   error (fst (createGenerateHandler (exampleRequest\<lparr>body_projectPath := []\<rparr>) running)) =
     Some ''projectPath required''"
  by (simp add: createGenerateHandler_def exampleRequest_def initial_def running_def)

text \<open>
  Claim C1, amended. For a request whose \<open>projectPath\<close> and \<open>prompt\<close> are not empty:
  if \<open>isRunning\<close> is true, the generate handler answers \<open>success: false\<close> with the
  already-running error, starts no background call and leaves the state as it is; if
  \<open>isRunning\<close> is false, it answers \<open>success: true\<close>, starts one background call with
  the fields of the request and a fresh controller, and when it returns the state
  differs from the one before in exactly this: \<open>isRunning\<close> is true, the fresh
  controller is stored, and the heap of controllers has that one more entry, not
  aborted, behind the entries it had (so every earlier controller keeps its signal);
  nothing is emitted. A request with an empty \<open>projectPath\<close> is answered with status
  400 and \<open>projectPath required\<close>, one with a \<open>projectPath\<close> and an empty \<open>prompt\<close> with
  status 400 and \<open>prompt required\<close>, in either state; nothing is started and the state
  is unchanged.
\<close>

theorem generate_admission:
  "(body_projectPath body \<noteq> [] \<and> body_prompt body \<noteq> [] \<and> isRunning w \<longrightarrow>
      createGenerateHandler body w =
        (\<lparr>statusCode = 200, success = False,
          error = Some ''Backlog modify generation is already running'', message = None\<rparr>,
         None, w)) \<and>
   (body_projectPath body \<noteq> [] \<and> body_prompt body \<noteq> [] \<and> \<not> isRunning w \<longrightarrow>
      createGenerateHandler body w =
        (\<lparr>statusCode = 200, success = True, error = None, message = None\<rparr>,
         Some \<lparr>launch_projectPath = body_projectPath body,
               launch_prompt = body_prompt body,
               launch_abortController = length (controllers w),
               launch_model = body_model body\<rparr>,
         w\<lparr>isRunning := True,
           currentAbortController := Some (length (controllers w)),
           controllers := controllers w @ [False]\<rparr>) \<and>
      length (controllers w) < length (controllers (snd (snd (createGenerateHandler body w)))) \<and>
      \<not> aborted (length (controllers w)) (snd (snd (createGenerateHandler body w))) \<and>
      (\<forall>c < length (controllers w).
         aborted c (snd (snd (createGenerateHandler body w))) = aborted c w) \<and>
      bus (snd (snd (createGenerateHandler body w))) = bus w) \<and>
   (body_projectPath body = [] \<longrightarrow>
      createGenerateHandler body w =
        (\<lparr>statusCode = 400, success = False, error = Some ''projectPath required'',
          message = None\<rparr>, None, w)) \<and>
   (body_projectPath body \<noteq> [] \<and> body_prompt body = [] \<longrightarrow>
      createGenerateHandler body w =
        (\<lparr>statusCode = 400, success = False, error = Some ''prompt required'',
          message = None\<rparr>, None, w))"
  by (simp add: createGenerateHandler_def getBacklogModifyStatus_def setRunningState_def
      newAbortController_def aborted_def Let_def nth_append)

text \<open>
  Claim C1, amended, at concrete inputs: the example request in the state \<open>running\<close>
  and in the initial state, where it starts \<open>exampleLaunch\<close> with controller 0 and
  leaves the state \<open>running\<close>; the same request without a prompt; and the same request
  without a project path.
\<close>

theorem generate_admission_witness:
  "createGenerateHandler exampleRequest running =
     (\<lparr>statusCode = 200, success = False,
       error = Some ''Backlog modify generation is already running'', message = None\<rparr>,
      None, running) \<and>
   createGenerateHandler exampleRequest initial =
     (\<lparr>statusCode = 200, success = True, error = None, message = None\<rparr>,
      Some exampleLaunch, running) \<and>
   createGenerateHandler (exampleRequest\<lparr>body_prompt := []\<rparr>) running =
     (\<lparr>statusCode = 400, success = False, error = Some ''prompt required'',
       message = None\<rparr>, None, running) \<and>
   createGenerateHandler (exampleRequest\<lparr>body_projectPath := []\<rparr>) initial =
     (\<lparr>statusCode = 400, success = False, error = Some ''projectPath required'',
       message = None\<rparr>, None, initial)"
  using generate_admission [of exampleRequest running]
    generate_admission [of exampleRequest initial]
    generate_admission [of "exampleRequest\<lparr>body_prompt := []\<rparr>" running]
    generate_admission [of "exampleRequest\<lparr>body_projectPath := []\<rparr>" initial]
  by (simp add: exampleRequest_def exampleLaunch_def initial_def running_def)

section \<open>Terminal events\<close>

text \<open>
  Claim C2 says that every accepted start is followed by exactly one terminal event.
  Here the example request is accepted in the initial state and the provider's stream
  throws \<open>Error("boom")\<close>: the \<open>catch\<close> block of \<open>generateBacklogModify\<close> emits
  \<open>backlog_modify_error\<close> and throws again, and the \<open>.catch\<close> callback of the handler
  emits it a second time. Two terminal events are on the bus.
\<close>

theorem failure_emits_two_error_events:
  "filter terminal (emitted initial (snd (startAndRun
      (exampleCollaborators False None [Throws (Error ''boom'')]) exampleRequest initial))) =
   [backlog_modify_error ''boom'', backlog_modify_error ''boom'']"
  by (simp add: run_defs)

section \<open>Consuming the stream\<close>

text \<open>
  Claim C3 as stated fails: it says that a progress event is published for the text of
  every assistant message. For the stream \<open>assistant("a")\<close>, \<open>assistant("b")\<close>,
  \<open>result(success, "ab")\<close> the whole run emits the two fixed progress events that
  precede the query and the completion event; no event carries \<open>a\<close>.
\<close>

theorem assistant_text_not_republished_counterexample:
  "emitted initial (snd (startAndRun
      (exampleCollaborators False None
         [Delivers (Assistant (Some [TextBlock ''a''])),
          Delivers (Assistant (Some [TextBlock ''b''])),
          Delivers (Result ''success'' (Some ''ab'') None)]) exampleRequest initial)) =
   [backlog_modify_progress ''Loaded 0 features (backlog/in_progress) from 0 total'',
    backlog_modify_progress ''Generating modifications with AI...'',
    backlog_modify_complete failedToParse] \<and>
   backlog_modify_progress ''a'' \<notin> set (emitted initial (snd (startAndRun
      (exampleCollaborators False None
         [Delivers (Assistant (Some [TextBlock ''a''])),
          Delivers (Assistant (Some [TextBlock ''b''])),
          Delivers (Result ''success'' (Some ''ab'') None)]) exampleRequest initial)))"
  by (simp add: run_defs)

text \<open>
  Claim C3, amended. While the controller is not aborted, the texts of the text blocks
  of the assistant messages are appended to the accumulated text, in the order of the
  messages and of the blocks within a message; and the loop over the stream, whatever
  it meets, emits nothing on the bus.
\<close>

theorem assistant_text_accumulated_silently:
  "(\<not> aborted c w \<longrightarrow>
      generateBacklogModify_stream c
        (map (\<lambda>blocks. Delivers (Assistant (Some blocks))) contents) rt w =
      (Inr (rt @ concat (concat (map texts contents))), w)) \<and>
   bus (snd (generateBacklogModify_stream c evs rt w)) = bus w"
proof -
  have "map (\<lambda>blocks. Delivers (Assistant (Some blocks))) contents =
        map Delivers (map (\<lambda>blocks. Assistant (Some blocks)) contents)"
    by simp
  then show ?thesis
    using stream_delivers [of c w "map (\<lambda>blocks. Assistant (Some blocks)) contents" rt]
    by (simp only: fold_assistant stream_bus) simp
qed

text \<open>
  Claim C3, amended, at a concrete input: two assistant messages, the second with a
  tool-use block before its text.
\<close>

theorem assistant_text_accumulated_silently_witness:
  "\<not> aborted 0 running \<and>
   generateBacklogModify_stream 0
     [Delivers (Assistant (Some [TextBlock ''a''])),
      Delivers (Assistant (Some [ToolUse ''Read'' ''{}'', TextBlock ''b'']))] [] running =
   (Inr ''ab'', running)"
  using assistant_text_accumulated_silently
    [of 0 running "[[TextBlock ''a''], [ToolUse ''Read'' ''{}'', TextBlock ''b'']]" "[]"]
  by (simp add: aborted_def running_def)

text \<open>
  Claim C4. When the controller is not aborted and the stream is a sequence of
  assistant messages followed by a \<open>result\<close> message of subtype \<open>success\<close> carrying the
  string \<open>r\<close>, the loop ends normally and the response text is \<open>r\<close> if \<open>r\<close> is strictly
  longer than the text accumulated from the assistant messages, and the accumulated
  text otherwise (also for equal lengths).
\<close>

theorem result_preferred_when_longer:
  assumes "\<not> aborted c w"
  shows "generateBacklogModify_stream c
           (map (\<lambda>blocks. Delivers (Assistant (Some blocks))) contents @
            [Delivers (Result ''success'' (Some r) err)]) [] w =
         (Inr (if length r > length (concat (concat (map texts contents))) then r
               else concat (concat (map texts contents))), w)"
proof -
  let ?msgs = "map (\<lambda>blocks. Assistant (Some blocks)) contents @ [Result ''success'' (Some r) err]"
  let ?acc = "concat (concat (map texts contents))"
  have eq: "map (\<lambda>blocks. Delivers (Assistant (Some blocks))) contents @
          [Delivers (Result ''success'' (Some r) err)] = map Delivers ?msgs"
    by simp
  have run: "generateBacklogModify_stream c (map Delivers ?msgs) [] w =
      (Inr (fold onMessage ?msgs []), w)"
    by (rule stream_delivers [OF assms])
  have "fold onMessage ?msgs [] = onMessage (Result ''success'' (Some r) err) ?acc"
    by (simp add: fold_assistant)
  also have "\<dots> = (if length r > length ?acc then r else ?acc)"
    by auto
  finally show ?thesis
    unfolding eq run by simp
qed

text \<open>
  Claim C4 at concrete inputs: accumulated \<open>ab\<close> against the result \<open>abcdef\<close>, the
  reverse, and two texts of equal length.
\<close>

theorem result_preferred_when_longer_witness:
  "\<not> aborted 0 running \<and>
   generateBacklogModify_stream 0
     [Delivers (Assistant (Some [TextBlock ''a''])), Delivers (Assistant (Some [TextBlock ''b''])),
      Delivers (Result ''success'' (Some ''abcdef'') None)] [] running = (Inr ''abcdef'', running) \<and>
   generateBacklogModify_stream 0
     [Delivers (Assistant (Some [TextBlock ''abc''])), Delivers (Assistant (Some [TextBlock ''def''])),
      Delivers (Result ''success'' (Some ''ab'') None)] [] running = (Inr ''abcdef'', running) \<and>
   generateBacklogModify_stream 0
     [Delivers (Assistant (Some [TextBlock ''a''])), Delivers (Assistant (Some [TextBlock ''b''])),
      Delivers (Result ''success'' (Some ''xy'') None)] [] running = (Inr ''ab'', running)"
proof -
  have h: "\<not> aborted 0 running" by (simp add: aborted_def running_def)
  show ?thesis
    using h
      result_preferred_when_longer [OF h, of "[[TextBlock ''a''], [TextBlock ''b'']]" "''abcdef''" None]
      result_preferred_when_longer [OF h, of "[[TextBlock ''abc''], [TextBlock ''def'']]" "''ab''" None]
      result_preferred_when_longer [OF h, of "[[TextBlock ''a''], [TextBlock ''b'']]" "''xy''" None]
    by simp
qed

section \<open>Parsing the response\<close>

text \<open>
  Claim C5. If the query is issued and the stream ends normally with a response text
  for which \<open>extractJsonWithArray\<close> returns \<open>null\<close>, then \<open>parseModifyResponse\<close> returns
  the artifact with no changes, the summary \<open>Failed to parse AI response\<close> and no
  dependency updates; \<open>generateBacklogModify\<close> returns it without throwing; and the one
  terminal event of the background call is \<open>backlog_modify_complete\<close> with that
  artifact, so no \<open>backlog_modify_error\<close> is emitted.
\<close>

theorem parse_failure_completes:
  assumes "generateBacklogModify_query env (launch_projectPath l) (launch_prompt l)
             (launch_abortController l) (launch_model l) w = (Inr stream, w1)"
    and "generateBacklogModify_stream (launch_abortController l) stream [] w1 = (Inr rt, w2)"
    and "extractJsonWithArray env rt = None"
  shows "parseModifyResponse env rt = failedToParse \<and>
         fst (generateBacklogModify env (launch_projectPath l) (launch_prompt l)
                (launch_abortController l) (launch_model l) w) = Inr failedToParse \<and>
         filter terminal (emitted w (createGenerateHandler_background env l w)) =
           [backlog_modify_complete failedToParse]"
proof -
  have p: "parseModifyResponse env rt = failedToParse"
    using assms(3) by (simp add: parseModifyResponse_def failedToParse_def)
  have t: "generateBacklogModify_try env (launch_projectPath l) (launch_prompt l)
             (launch_abortController l) (launch_model l) w =
           (Inr failedToParse,
            emit ''backlog-modify:event'' (backlog_modify_complete failedToParse) w2)"
    using assms(1,2) p by (simp add: generateBacklogModify_try_def)
  have "fst (generateBacklogModify env (launch_projectPath l) (launch_prompt l)
                (launch_abortController l) (launch_model l) w) = Inr failedToParse"
    using t by (simp add: generateBacklogModify_def)
  with p background_terminal [OF t] show ?thesis by simp
qed

text \<open>
  Claim C5 at a concrete input: an empty stream, so the response text is the empty
  string, and an extractor that returns \<open>null\<close>.
\<close>

theorem parse_failure_completes_witness:
  "extractJsonWithArray (exampleCollaborators False None []) [] = None \<and>
   generateBacklogModify_stream 0 [] [] running = (Inr [], running) \<and>
   filter terminal (emitted running
      (createGenerateHandler_background (exampleCollaborators False None []) exampleLaunch running)) =
   [backlog_modify_complete failedToParse]"
proof -
  let ?env = "exampleCollaborators False None []"
  let ?q = "generateBacklogModify_query ?env (launch_projectPath exampleLaunch)
     (launch_prompt exampleLaunch) (launch_abortController exampleLaunch)
     (launch_model exampleLaunch) running"
  have h1: "?q = (Inr [], snd ?q)"
    by (simp add: run_defs)
  have h2: "generateBacklogModify_stream (launch_abortController exampleLaunch) [] [] (snd ?q) =
      (Inr [], snd ?q)"
    by simp
  have h3: "extractJsonWithArray ?env [] = None"
    by (simp add: exampleCollaborators_def)
  show ?thesis
    using parse_failure_completes [OF h1 h2 h3] h3 by simp
qed

text \<open>
  Claim C10. For every response text and every extractor, the artifact returned by
  \<open>parseModifyResponse\<close> has only changes of type \<open>update\<close> and an empty list of
  dependency updates; and so has the artifact of every \<open>backlog_modify_complete\<close> event
  that a background call emits.
\<close>

theorem artifact_only_updates:
  "(\<forall>c \<in> set (changes (parseModifyResponse env response)). type c = ''update'') \<and>
   dependencyUpdates (parseModifyResponse env response) = [] \<and>
   (\<forall>result. backlog_modify_complete result \<in>
        set (emitted w (createGenerateHandler_background env l w)) \<longrightarrow>
      (\<forall>c \<in> set (changes result). type c = ''update'') \<and> dependencyUpdates result = [])"
proof -
  have parse: "(\<forall>c \<in> set (changes (parseModifyResponse env r)). type c = ''update'') \<and>
      dependencyUpdates (parseModifyResponse env r) = []" for r
    by (simp add: parseModifyResponse_def Let_def split: option.splits)
  have "(\<forall>c \<in> set (changes result). type c = ''update'') \<and> dependencyUpdates result = []"
    if m: "backlog_modify_complete result \<in>
        set (emitted w (createGenerateHandler_background env l w))" for result
  proof -
    obtain r w1 where t: "generateBacklogModify_try env (launch_projectPath l) (launch_prompt l)
       (launch_abortController l) (launch_model l) w = (r, w1)"
      by (cases "generateBacklogModify_try env (launch_projectPath l) (launch_prompt l)
       (launch_abortController l) (launch_model l) w")
    from m have "backlog_modify_complete result \<in>
        set (filter terminal (emitted w (createGenerateHandler_background env l w)))"
      by simp
    then have "r = Inr result"
      unfolding background_terminal [OF t] by (cases r) auto
    with t try_result obtain rt where "result = parseModifyResponse env rt"
      by blast
    with parse show ?thesis by simp
  qed
  with parse show ?thesis by blast
qed

text \<open>
  Claim C10 at a concrete input: the extractor returns a plan with an \<open>add\<close>, an
  \<open>update\<close> and a \<open>delete\<close> change and one dependency update.
\<close>

theorem artifact_only_updates_witness:
  "changes (parseModifyResponse (exampleCollaborators False (Some examplePlan) []) ''{}'') =
     [\<lparr>type = ''update'', featureId = Some ''f1'', feature = Some [], reason = ''edit''\<rparr>] \<and>
   dependencyUpdates (parseModifyResponse (exampleCollaborators False (Some examplePlan) []) ''{}'') = [] \<and>
   backlog_modify_complete (parseModifyResponse (exampleCollaborators False (Some examplePlan) []) ''{}'')
     \<in> set (emitted running (createGenerateHandler_background
          (exampleCollaborators False (Some examplePlan) []) exampleLaunch running))"
  using artifact_only_updates [of "exampleCollaborators False (Some examplePlan) []" "''{}''"
      running exampleLaunch]
  by (simp add: run_defs)

section \<open>Stopping and cleaning up\<close>

text \<open>
  Claim C6. The stop handler always answers \<open>success: true\<close> and emits nothing. With no
  stored controller it answers \<open>No generation running\<close> and leaves the state as it is.
  With a stored controller it aborts that controller, clears \<open>isRunning\<close> and the stored
  controller. In both cases a second stop right after the first answers
  \<open>No generation running\<close> and changes nothing.
\<close>

theorem stop_idempotent:
  "success (fst (createStopHandler w)) \<and>
   bus (snd (createStopHandler w)) = bus w \<and>
   (currentAbortController w = None \<longrightarrow>
      createStopHandler w =
        (\<lparr>statusCode = 200, success = True, error = None,
          message = Some ''No generation running''\<rparr>, w)) \<and>
   (currentAbortController w \<noteq> None \<longrightarrow>
      (the (currentAbortController w) < length (controllers w) \<longrightarrow>
         aborted (the (currentAbortController w)) (snd (createStopHandler w))) \<and>
      \<not> isRunning (snd (createStopHandler w)) \<and>
      currentAbortController (snd (createStopHandler w)) = None) \<and>
   createStopHandler (snd (createStopHandler w)) =
     (\<lparr>statusCode = 200, success = True, error = None,
       message = Some ''No generation running''\<rparr>, snd (createStopHandler w))"
  by (auto simp: createStopHandler_def getAbortController_def setRunningState_def abort_def
      aborted_def split: option.splits)

text \<open>
  Claim C6 at concrete inputs: the initial state (nothing stored) and the state
  \<open>running\<close> (controller 0 stored).
\<close>

theorem stop_idempotent_witness:
  "createStopHandler initial =
     (\<lparr>statusCode = 200, success = True, error = None,
       message = Some ''No generation running''\<rparr>, initial) \<and>
   currentAbortController running = Some 0 \<and>
   aborted 0 (snd (createStopHandler running)) \<and>
   \<not> isRunning (snd (createStopHandler running)) \<and>
   createStopHandler (snd (createStopHandler running)) =
     (\<lparr>statusCode = 200, success = True, error = None,
       message = Some ''No generation running''\<rparr>, snd (createStopHandler running))"
  using stop_idempotent [of initial] stop_idempotent [of running]
  by (simp add: initial_def running_def)

text \<open>
  Claim C7. Whatever the collaborators return or throw and whatever the stream
  delivers, when the background call has ended \<open>isRunning\<close> is false and no controller
  is stored: the \<open>finally\<close> block of \<open>generateBacklogModify\<close> and the \<open>.finally\<close>
  callback of the handler both clear them. In particular this holds after every
  accepted start.
\<close>

theorem running_state_cleared:
  "\<not> isRunning (createGenerateHandler_background env l w) \<and>
   currentAbortController (createGenerateHandler_background env l w) = None \<and>
   \<not> isRunning (snd (generateBacklogModify env p u c m w)) \<and>
   currentAbortController (snd (generateBacklogModify env p u c m w)) = None \<and>
   (success (fst (startAndRun env body w)) \<longrightarrow>
      \<not> isRunning (snd (startAndRun env body w)) \<and>
      currentAbortController (snd (startAndRun env body w)) = None)"
proof -
  have bg: "\<not> isRunning (createGenerateHandler_background env k v) \<and>
      currentAbortController (createGenerateHandler_background env k v) = None" for k v
    by (simp add: createGenerateHandler_background_def setRunningState_def
        split: prod.splits sum.splits)
  have gen: "\<not> isRunning (snd (generateBacklogModify env p u c m w)) \<and>
      currentAbortController (snd (generateBacklogModify env p u c m w)) = None"
    by (simp add: generateBacklogModify_def setRunningState_def split: prod.splits sum.splits)
  have "\<not> isRunning (snd (startAndRun env body w)) \<and>
      currentAbortController (snd (startAndRun env body w)) = None"
    if "success (fst (startAndRun env body w))"
  proof (cases "createGenerateHandler body w")
    case (fields res started w1)
    show ?thesis
    proof (cases started)
      case None
      with fields that show ?thesis
        by (auto simp: startAndRun_def createGenerateHandler_def Let_def
            newAbortController_def split: if_splits)
    next
      case (Some k)
      with fields bg [of k w1] show ?thesis by (simp add: startAndRun_def)
    qed
  qed
  with bg gen show ?thesis by blast
qed

text \<open>
  Claim C7 at a concrete input: the example request, accepted in the initial state,
  with a stream that throws.
\<close>

theorem running_state_cleared_witness:
  "success (fst (startAndRun (exampleCollaborators False None [Throws (Error ''boom'')])
      exampleRequest initial)) \<and>
   \<not> isRunning (snd (startAndRun (exampleCollaborators False None [Throws (Error ''boom'')])
      exampleRequest initial)) \<and>
   currentAbortController (snd (startAndRun
      (exampleCollaborators False None [Throws (Error ''boom'')]) exampleRequest initial)) = None"
proof -
  have "success (fst (startAndRun (exampleCollaborators False None [Throws (Error ''boom'')])
      exampleRequest initial))"
    by (simp add: startAndRun_def example_accept)
  with running_state_cleared
    [where env = "exampleCollaborators False None [Throws (Error ''boom'')]"
       and body = exampleRequest and w = initial]
  show ?thesis by blast
qed

text \<open>
  Claim C8 as stated fails: it says that a cancelled job is not reported through the
  event kind of an execution error. A stop request followed by a message makes the loop
  throw \<open>Error("Generation aborted")\<close>, which is reported as \<open>backlog_modify_error\<close>;
  a stream that throws by itself is reported as \<open>backlog_modify_error\<close> too.
\<close>

theorem abort_reported_as_error_counterexample:
  "filter terminal (emitted initial (snd (startAndRun
      (exampleCollaborators False None
         [StopRequest, Delivers (Assistant (Some [TextBlock ''a'']))]) exampleRequest initial))) =
   [backlog_modify_error ''Generation aborted'', backlog_modify_error ''Generation aborted''] \<and>
   filter terminal (emitted initial (snd (startAndRun
      (exampleCollaborators False None
         [Throws (Error ''spawn cursor-agent ENOENT'')]) exampleRequest initial))) =
   [backlog_modify_error ''spawn cursor-agent ENOENT'',
    backlog_modify_error ''spawn cursor-agent ENOENT'']"
  by (simp add: run_defs)

text \<open>
  Claim C8, amended. When a message arrives and the controller of the call is aborted,
  the loop throws \<open>Error("Generation aborted")\<close>; and when the loop of a background call
  ends with that error, every terminal event of the call is a \<open>backlog_modify_error\<close>
  with the message \<open>Generation aborted\<close>, and there is one. Cancellation has the event
  kind of any other failure and differs by its message only.
\<close>

theorem abort_reported_as_error:
  "(aborted c w \<longrightarrow>
      generateBacklogModify_stream c (Delivers msg # rest) rt w =
        (Inl (Error ''Generation aborted''), w)) \<and>
   (generateBacklogModify_query env (launch_projectPath l) (launch_prompt l)
        (launch_abortController l) (launch_model l) w0 = (Inr stream, w1) \<and>
    generateBacklogModify_stream (launch_abortController l) stream [] w1 =
        (Inl (Error ''Generation aborted''), w2) \<longrightarrow>
      set (filter terminal (emitted w0 (createGenerateHandler_background env l w0))) =
        {backlog_modify_error ''Generation aborted''})"
proof (intro conjI impI)
  assume "aborted c w"
  then show "generateBacklogModify_stream c (Delivers msg # rest) rt w =
        (Inl (Error ''Generation aborted''), w)"
    by simp
next
  assume a: "generateBacklogModify_query env (launch_projectPath l) (launch_prompt l)
        (launch_abortController l) (launch_model l) w0 = (Inr stream, w1) \<and>
    generateBacklogModify_stream (launch_abortController l) stream [] w1 =
        (Inl (Error ''Generation aborted''), w2)"
  then have t: "generateBacklogModify_try env (launch_projectPath l) (launch_prompt l)
             (launch_abortController l) (launch_model l) w0 =
           (Inl (Error ''Generation aborted''), w2)"
    by (simp add: generateBacklogModify_try_def)
  show "set (filter terminal (emitted w0 (createGenerateHandler_background env l w0))) =
        {backlog_modify_error ''Generation aborted''}"
    unfolding background_terminal [OF t] by simp
qed

text \<open>
  Claim C8, amended, at a concrete input: from the state \<open>running\<close>, a stop request and
  then an assistant message.
\<close>

theorem abort_reported_as_error_witness:
  "aborted 0 (snd (createStopHandler running)) \<and>
   generateBacklogModify_stream 0 [Delivers (Assistant (Some [TextBlock ''a'']))] []
      (snd (createStopHandler running)) =
     (Inl (Error ''Generation aborted''), snd (createStopHandler running)) \<and>
   set (filter terminal (emitted running
      (createGenerateHandler_background
         (exampleCollaborators False None
            [StopRequest, Delivers (Assistant (Some [TextBlock ''a'']))])
         exampleLaunch running))) =
     {backlog_modify_error ''Generation aborted''}"
proof -
  let ?stream = "[StopRequest, Delivers (Assistant (Some [TextBlock ''a'']))]"
  let ?env = "exampleCollaborators False None ?stream"
  let ?q = "generateBacklogModify_query ?env (launch_projectPath exampleLaunch)
     (launch_prompt exampleLaunch) (launch_abortController exampleLaunch)
     (launch_model exampleLaunch) running"
  let ?s = "generateBacklogModify_stream (launch_abortController exampleLaunch) ?stream []
     (snd ?q)"
  have h0: "aborted 0 (snd (createStopHandler running))"
    by (simp add: run_defs)
  have h1: "?q = (Inr ?stream, snd ?q)"
    by (simp add: run_defs)
  have h2: "?s = (Inl (Error ''Generation aborted''), snd ?s)"
    by (simp add: run_defs)
  show ?thesis
    using h0
      abort_reported_as_error [of 0 "snd (createStopHandler running)"
        "Assistant (Some [TextBlock ''a''])" "[]" "[]" ?env exampleLaunch running ?stream
        "snd ?q" "snd ?s"]
      h1 h2
    by simp
qed

section \<open>The query\<close>



end
